theory Spec2Isabelle
  imports Complex_Main "HOL-Library.Word"
begin

section \<open>JavaScript values\<close>

text \<open>
  The model follows \<^verbatim>\<open>assets/product-form.js\<close>. A thrown value is a value of
  \<open>js_error\<close>.
\<close>

datatype js_error = Error string | TypeError string | SyntaxError string

text \<open>
  A JavaScript number holds every integer below \<open>2 ^ 53\<close> in absolute value exactly
  and prints it in decimal digits. The numbers that the code obtains from text are
  modelled in that range: \<open>Num i\<close> is such an integer and \<open>NaN\<close> is not-a-number, and
  \<open>NotRead\<close> stands for the result on a text that this model does not read, of which
  nothing is said.
\<close>

datatype jsnum = Num int | NaN | NotRead

text \<open>
  \<^verbatim>\<open>a || b\<close> on numbers: \<open>b\<close> is taken when \<open>a\<close> is \<open>0\<close> or \<open>NaN\<close>, and the
  result is not known when \<open>a\<close> was not read.
\<close>

definition num_or :: "jsnum \<Rightarrow> jsnum \<Rightarrow> jsnum" where
  "num_or a b = (case a of Num i \<Rightarrow> if i \<noteq> 0 then Num i else b | NaN \<Rightarrow> b | NotRead \<Rightarrow> NotRead)"

text \<open>Truthiness of a string that may be \<^verbatim>\<open>undefined\<close> or \<^verbatim>\<open>null\<close>.\<close>

definition truthy_str :: "string option \<Rightarrow> bool" where
  "truthy_str v = (case v of None \<Rightarrow> False | Some t \<Rightarrow> t \<noteq> [])"

subsection \<open>Numbers and text\<close>

definition digit_char :: "nat \<Rightarrow> char" where
  "digit_char d = ''0123456789'' ! d"

text \<open>\<^verbatim>\<open>n.toString()\<close> for a whole number: decimal digits, most significant first.\<close>

fun string_of_nat :: "nat \<Rightarrow> string" where
  "string_of_nat n =
     (if n < 10 then [digit_char n] else string_of_nat (n div 10) @ [digit_char (n mod 10)])"

declare string_of_nat.simps [simp del]

definition string_of_int :: "int \<Rightarrow> string" where
  "string_of_int i = (if i < 0 then CHR ''-'' # string_of_nat (nat (- i)) else string_of_nat (nat i))"

text \<open>
  \<^verbatim>\<open>s.replace(pat, rep)\<close> with a string pattern: the first occurrence of \<open>pat\<close> is
  replaced, later ones stay. (The replacement texts of this program are decimal numbers,
  so the \<^verbatim>\<open>$\<close> patterns of a replacement string do not arise.)
\<close>

fun string_replace :: "string \<Rightarrow> string \<Rightarrow> string \<Rightarrow> string" where
  "string_replace pat rep [] = (if pat = [] then rep else [])"
| "string_replace pat rep (c # cs) =
     (if take (length pat) (c # cs) = pat then rep @ drop (length pat) (c # cs)
      else c # string_replace pat rep cs)"

definition is_space :: "char \<Rightarrow> bool" where
  "is_space c = (c \<in> set [CHR '' '', CHR 0x09, CHR 0x0A, CHR 0x0B, CHR 0x0C, CHR 0x0D])"

definition is_digit :: "char \<Rightarrow> bool" where
  "is_digit c = (c \<in> set ''0123456789'')"

text \<open>\<^verbatim>\<open>s.trim()\<close>, on ASCII white space.\<close>

definition trim :: "string \<Rightarrow> string" where
  "trim s = rev (dropWhile is_space (rev (dropWhile is_space s)))"

definition digit_value :: "char \<Rightarrow> nat" where
  "digit_value c = of_char c - 48"

definition nat_of_digits :: "string \<Rightarrow> nat" where
  "nat_of_digits ds = foldl (\<lambda>acc c. 10 * acc + digit_value c) 0 ds"

text \<open>
  \<^verbatim>\<open>Number(v)\<close> for a form entry or a data attribute: \<^verbatim>\<open>null\<close> is \<open>0\<close> and
  \<^verbatim>\<open>undefined\<close> is \<open>NaN\<close>. A string is trimmed of ASCII white space; the empty
  string is \<open>0\<close>, and decimal digits with an optional sign whose value is below
  \<open>2 ^ 53\<close> are that integer. Every other string is \<open>NotRead\<close>: JavaScript reads some
  of them as numbers (a fraction, an exponent, a radix prefix, \<^verbatim>\<open>Infinity\<close>, an integer
  from \<open>2 ^ 53\<close> on, which it rounds) and the others as \<open>NaN\<close>, and this model does not
  tell which.
\<close>

definition Number_of_string :: "string \<Rightarrow> jsnum" where
  "Number_of_string s =
     (let t = trim s in
      if t = [] then Num 0
      else
        let neg = (hd t = CHR ''-'');
            ds = (if hd t = CHR ''-'' \<or> hd t = CHR ''+'' then tl t else t)
        in if ds \<noteq> [] \<and> list_all is_digit ds \<and> nat_of_digits ds < 2 ^ 53
           then Num ((if neg then - 1 else 1) * int (nat_of_digits ds))
           else NotRead)"

text \<open>\<^verbatim>\<open>Number(formData.get(name))\<close>: a missing entry is \<^verbatim>\<open>null\<close>.\<close>

definition Number_of_entry :: "string option \<Rightarrow> jsnum" where
  "Number_of_entry v = (case v of None \<Rightarrow> Num 0 | Some s \<Rightarrow> Number_of_string s)"

text \<open>\<^verbatim>\<open>Number(this.dataset.name)\<close>: a missing attribute is \<^verbatim>\<open>undefined\<close>.\<close>

definition Number_of_data :: "string option \<Rightarrow> jsnum" where
  "Number_of_data v = (case v of None \<Rightarrow> NaN | Some s \<Rightarrow> Number_of_string s)"

subsection \<open>Class lists\<close>

text \<open>A \<^verbatim>\<open>classList\<close> is the list of the element's class names, without repetition.\<close>

definition classList_contains :: "string \<Rightarrow> string list \<Rightarrow> bool" where
  "classList_contains c cs = (c \<in> set cs)"

definition classList_add :: "string \<Rightarrow> string list \<Rightarrow> string list" where
  "classList_add c cs = (if c \<in> set cs then cs else cs @ [c])"

definition classList_remove :: "string \<Rightarrow> string list \<Rightarrow> string list" where
  "classList_remove c cs = filter (\<lambda>d. d \<noteq> c) cs"

text \<open>\<^verbatim>\<open>classList.toggle(c, force)\<close> with the second argument given.\<close>

definition classList_toggle :: "string \<Rightarrow> bool \<Rightarrow> string list \<Rightarrow> string list" where
  "classList_toggle c force cs = (if force then classList_add c cs else classList_remove c cs)"

section \<open>The page: elements, timers, network and signals\<close>

subsection \<open>Elements\<close>

text \<open>
  The error element \<^verbatim>\<open>refs.addToCartTextError\<close>: its class list, the text of each of
  its child nodes in order, and its \<^verbatim>\<open>aria-live\<close> attribute.
\<close>

record error_element =
  err_classList :: "string list"
  err_childNodes :: "string list"
  err_aria_live :: "string option"

text \<open>What \<^verbatim>\<open>canAddToCart()\<close> of the quantity widget returns.\<close>

record validation =
  canAdd :: bool
  maxQuantity :: int

text \<open>
  The calls of \<^verbatim>\<open>updateConstraints(min, max, step)\<close> and \<^verbatim>\<open>setValue(v)\<close> that the
  quantity widget has received; what the widget does with them is its own affair.
\<close>

datatype widget_call = UpdateConstraints string "string option" string | SetValue string

text \<open>
  The element \<^verbatim>\<open>quantity-selector-component\<close>, an external widget that is probed for
  its methods: \<open>canAddToCart\<close> is \<open>None\<close> when it has no such method and otherwise
  the result the call returns; \<open>has_setCartQuantity\<close> tells whether that method
  exists, and \<open>cartQuantity\<close> is the number it was last given. In the same way
  \<open>has_updateConstraints\<close> and \<open>has_setValue\<close> tell whether those methods exist,
  \<open>getValue\<close> is what \<^verbatim>\<open>getValue?.()\<close> returns (\<open>None\<close> for \<^verbatim>\<open>undefined\<close>), and
  \<open>widget_calls\<close> lists the calls received.
\<close>

record quantity_selector =
  canAddToCart :: "validation option"
  has_setCartQuantity :: bool
  cartQuantity :: int
  has_updateConstraints :: bool
  getValue :: "string option"
  has_setValue :: bool
  widget_calls :: "widget_call list"

text \<open>The form that encloses the button, as \<^verbatim>\<open>this.closest('form')\<close> finds it.\<close>

record click_form =
  checkValidity :: bool
  form_quantitySelector :: "quantity_selector option"

text \<open>
  An \<^verbatim>\<open>add-to-cart-component\<close> with its required button
  (\<^verbatim>\<open>requiredRefs = ['addToCartButton']\<close>): the button's \<^verbatim>\<open>disabled\<close> property, class
  list and inner markup, the text of its \<^verbatim>\<open>.add-to-cart-text--added\<close> child when there
  is one, the two private timer handles, the two data attributes and the enclosing form.
\<close>

record add_to_cart =
  disabled :: bool
  atc_classList :: "string list"
  atc_markup :: string
  atc_addedText :: "string option"
  animationTimeout :: "nat option"
  cleanupTimeout :: "nat option"
  addToCartAnimation :: "string option"
  productVariantMedia :: "string option"
  closest_form :: "click_form option"

text \<open>The accelerated-checkout container and its \<^verbatim>\<open>hidden\<close> attribute.\<close>

record accelerated_checkout =
  attr_hidden :: "string option"

text \<open>The \<^verbatim>\<open>form\<close> element: its \<^verbatim>\<open>id\<close> attribute and its entries in order.\<close>

record form_element =
  form_id :: "string option"
  form_entries :: "(string \<times> string) list"

text \<open>The quantity label \<^verbatim>\<open>refs.quantityLabelCartCount\<close>.\<close>

record quantity_label =
  label_textContent :: string
  label_classList :: "string list"

text \<open>
  What \<^verbatim>\<open>this.querySelector('input[name="id"]')\<close> finds: nothing, the input that is
  also \<^verbatim>\<open>refs.variantId\<close>, or another input with its own text.
\<close>

datatype id_input = NoIdInput | VariantIdRef | OtherIdInput string

subsection \<open>Timers\<close>

text \<open>
  The callbacks that the code passes to \<^verbatim>\<open>setTimeout\<close>, one constructor for each
  arrow function: hiding the error (lines 270 and 327), re-enabling the button (277),
  clearing the success announcement (365), the end of the button animation (130) and
  its clean-up (131).
\<close>

datatype timer_action =
  HideError | EnableButton | ClearAnnouncement | AnimationEnd | AnimationCleanup

record timer =
  tid :: nat
  due :: nat
  action :: timer_action

subsection \<open>Network and signals\<close>

datatype request = Post string "(string \<times> string) list" | Get string

text \<open>
  The JSON that answers the cart-add request: \<^verbatim>\<open>status\<close> is a number or absent, and
  the parts that are only passed on are kept as text.
\<close>

record add_response =
  status :: "int option"
  message :: string
  description :: string
  errors :: string
  sections :: string

text \<open>What a request comes to: the fetch rejects, the body is not JSON, or the JSON.\<close>

datatype 'a reply = FetchRejected | JsonRejected | Json 'a

text \<open>
  An item of the cart JSON. Its two numbers are whole numbers below \<open>2 ^ 53\<close>, the
  range in which \<^verbatim>\<open>JSON.parse\<close> keeps an integer exactly and \<^verbatim>\<open>toString()\<close> prints
  it in decimal digits; larger ids, which a JavaScript number rounds, are outside the
  model.
\<close>

record cart_item =
  variant_id :: "53 word"
  quantity :: "53 word"

text \<open>The cart JSON: its \<^verbatim>\<open>items\<close>, or \<open>None\<close> when the object has no such array.\<close>

record cart =
  items :: "cart_item list option"

record cart_error_event =
  ce_sourceId :: string
  ce_message :: string
  ce_description :: string
  ce_errors :: string

text \<open>\<open>didError\<close> is \<open>False\<close> for an event whose data has no such key.\<close>

record cart_add_event =
  ca_sourceId :: string
  didError :: bool
  source :: string
  itemCount :: jsnum
  ca_productId :: "string option"
  ca_sections :: "string option"

datatype theme_event = CartErrorEvent cart_error_event | CartAddEvent cart_add_event

subsection \<open>The state\<close>

text \<open>
  One \<^verbatim>\<open>product-form-component\<close> with the elements it refers to, and the parts of the
  browser it acts on: the clock and the pending timers, the requests sent, the events
  dispatched, the errors logged and the fly-to-cart elements appended to the body. The
  last three fields are the markup of \<^verbatim>\<open>refs.quantityRules\<close> and of the element
  \<^verbatim>\<open>.quantity-label\<close>, when the page has them, and whether it has
  \<^verbatim>\<open>refs.productFormButtons\<close>.
\<close>

record page =
  now :: nat
  timer_counter :: nat
  timers :: "timer list"
  requests :: "request list"
  events :: "theme_event list"
  console_errors :: "js_error list"
  fly_to_cart_elements :: "string list"
  cartIcon :: bool
  cartItemsComponents :: "string option list"
  translations_added :: string
  cart_add_url :: string
  component_id :: string
  timeout :: "nat option"
  addToCartTextError :: "error_element option"
  addToCartButtonContainer :: "add_to_cart option"
  acceleratedCheckoutButtonContainer :: "accelerated_checkout option"
  liveRegion :: string
  variantId :: string
  idInput :: id_input
  form :: "form_element option"
  quantitySelector :: "quantity_selector option"
  quantityErrorMax :: "string option"
  quantityDefault :: "string option"
  productId :: "string option"
  quantityLabelCartCount :: "quantity_label option"
  quantityRules :: "string option"
  quantityLabel :: "string option"
  productFormButtons :: bool

text \<open>How a handler ends: it returns, or it throws with the state as it then is.\<close>

datatype outcome = Returned page | Threw js_error page

fun state_of :: "outcome \<Rightarrow> page" where
  "state_of (Returned s) = s"
| "state_of (Threw e s) = s"

section \<open>Browser operations\<close>

definition ADD_TO_CART_TEXT_ANIMATION_DURATION :: nat where
  "ADD_TO_CART_TEXT_ANIMATION_DURATION = 2000"

definition ERROR_MESSAGE_DISPLAY_DURATION :: nat where
  "ERROR_MESSAGE_DISPLAY_DURATION = 10000"

definition ERROR_BUTTON_REENABLE_DELAY :: nat where
  "ERROR_BUTTON_REENABLE_DELAY = 1000"

definition SUCCESS_MESSAGE_DISPLAY_DURATION :: nat where
  "SUCCESS_MESSAGE_DISPLAY_DURATION = 5000"

text \<open>
  \<^verbatim>\<open>setTimeout(callback, delay)\<close> returns a fresh handle, greater than zero, and the
  timer is pending until it fires or is cleared; \<open>due\<close> is the time at which it fires.
\<close>

definition setTimeout :: "timer_action \<Rightarrow> nat \<Rightarrow> page \<Rightarrow> nat \<times> page" where
  "setTimeout a delay s =
     (let i = Suc (timer_counter s)
      in (i, s\<lparr> timer_counter := i,
                timers := timers s @ [\<lparr> tid = i, due = now s + delay, action = a \<rparr>] \<rparr>))"

definition clearTimeout :: "nat \<Rightarrow> page \<Rightarrow> page" where
  "clearTimeout i s = s\<lparr> timers := filter (\<lambda>t. tid t \<noteq> i) (timers s) \<rparr>"

text \<open>
  \<^verbatim>\<open>if (handle) clearTimeout(handle)\<close>, for a private field that holds a handle or
  is still \<^verbatim>\<open>undefined\<close>.
\<close>

definition clear_if_set :: "nat option \<Rightarrow> page \<Rightarrow> page" where
  "clear_if_set h s = (case h of None \<Rightarrow> s | Some i \<Rightarrow> if i \<noteq> 0 then clearTimeout i s else s)"

definition dispatchEvent :: "theme_event \<Rightarrow> page \<Rightarrow> page" where
  "dispatchEvent e s = s\<lparr> events := events s @ [e] \<rparr>"

definition fetch :: "request \<Rightarrow> page \<Rightarrow> page" where
  "fetch r s = s\<lparr> requests := requests s @ [r] \<rparr>"

definition console_error :: "js_error \<Rightarrow> page \<Rightarrow> page" where
  "console_error e s = s\<lparr> console_errors := console_errors s @ [e] \<rparr>"

text \<open>Time passes while no timer fires.\<close>

definition elapse :: "nat \<Rightarrow> page \<Rightarrow> page" where
  "elapse d s = s\<lparr> now := now s + d \<rparr>"

text \<open>
  Handles are handed out in increasing order, so the handle of a pending timer is
  positive and at most the last one handed out. Setting, clearing and firing a timer
  keep this, and so do the submit and click handlers.
\<close>

definition timers_wf :: "page \<Rightarrow> bool" where
  "timers_wf s = (\<forall>t \<in> set (timers s). 0 < tid t \<and> tid t \<le> timer_counter s)"

section \<open>AddToCartComponent\<close>

definition disable :: "add_to_cart \<Rightarrow> add_to_cart" where
  "disable c = c\<lparr> disabled := True \<rparr>"

definition enable :: "add_to_cart \<Rightarrow> add_to_cart" where
  "enable c = c\<lparr> disabled := False \<rparr>"

text \<open>
  \<^verbatim>\<open>quantitySelector?.canAddToCart\<close> followed by the call: the validation, when there
  is a widget and it has the method.
\<close>

definition validation_of :: "quantity_selector option \<Rightarrow> validation option" where
  "validation_of q = (case q of None \<Rightarrow> None | Some w \<Rightarrow> canAddToCart w)"

text \<open>\<^verbatim>\<open>animateAddToCart()\<close>, lines 120 to 135.\<close>

definition animateAddToCart :: "page \<Rightarrow> page" where
  "animateAddToCart s =
     (case addToCartButtonContainer s of
        None \<Rightarrow> s
      | Some c \<Rightarrow>
          let s1 = clear_if_set (animationTimeout c) s;
              s2 = clear_if_set (cleanupTimeout c) s1;
              c1 = (if \<not> classList_contains ''atc-added'' (atc_classList c)
                    then c\<lparr> atc_classList := classList_add ''atc-added'' (atc_classList c) \<rparr>
                    else c);
              (i, s3) = setTimeout AnimationEnd ADD_TO_CART_TEXT_ANIMATION_DURATION s2
          in s3\<lparr> addToCartButtonContainer := Some (c1\<lparr> animationTimeout := Some i \<rparr>) \<rparr>)"

text \<open>
  \<^verbatim>\<open>#animateFlyToCart()\<close>, lines 100 to 115: with a cart icon and an image, a
  \<^verbatim>\<open>fly-to-cart\<close> element with that background image is appended to the body.
\<close>

definition animateFlyToCart :: "page \<Rightarrow> page" where
  "animateFlyToCart s =
     (case addToCartButtonContainer s of
        None \<Rightarrow> s
      | Some c \<Rightarrow>
          (case productVariantMedia c of
             None \<Rightarrow> s
           | Some img \<Rightarrow>
               if \<not> cartIcon s \<or> img = [] then s
               else s\<lparr> fly_to_cart_elements := fly_to_cart_elements s @ [img] \<rparr>))"

text \<open>The click, as far as the handler reads it: is the target inside \<^verbatim>\<open>.quick-add-modal\<close>?\<close>

record click_event =
  target_in_quick_add_modal :: bool

text \<open>
  \<^verbatim>\<open>handleClick(event)\<close>, lines 66 to 87. The handler is a method of the button
  container, so it runs on a page that has one.
\<close>

definition handleClick :: "click_event \<Rightarrow> page \<Rightarrow> page" where
  "handleClick event s =
     (case addToCartButtonContainer s of
        None \<Rightarrow> s
      | Some c \<Rightarrow>
          (case closest_form c of
             None \<Rightarrow> s
           | Some f \<Rightarrow>
               if \<not> checkValidity f then s
               else if (case validation_of (form_quantitySelector f) of
                          None \<Rightarrow> False
                        | Some v \<Rightarrow> \<not> canAdd v) then s
               else
                 let s1 = animateAddToCart s;
                     animationEnabled = (addToCartAnimation c = Some ''true'')
                 in if animationEnabled \<and> \<not> target_in_quick_add_modal event
                    then animateFlyToCart s1 else s1))"

text \<open>
  A valid click: the enclosing form exists and is valid, and the quantity widget, when
  the form has one with a \<^verbatim>\<open>canAddToCart\<close> method, accepts.
\<close>

definition click_valid :: "add_to_cart \<Rightarrow> bool" where
  "click_valid c =
     (case closest_form c of
        None \<Rightarrow> False
      | Some f \<Rightarrow>
          checkValidity f \<and>
          (case validation_of (form_quantitySelector f) of None \<Rightarrow> True | Some v \<Rightarrow> canAdd v))"

text \<open>The button carries the class \<^verbatim>\<open>atc-added\<close>.\<close>

definition atc_added :: "page \<Rightarrow> bool" where
  "atc_added s =
     (case addToCartButtonContainer s of
        None \<Rightarrow> False
      | Some c \<Rightarrow> classList_contains ''atc-added'' (atc_classList c))"

section \<open>ProductFormComponent\<close>

definition setLiveRegionText :: "string \<Rightarrow> page \<Rightarrow> page" where
  "setLiveRegionText txt s = s\<lparr> liveRegion := txt \<rparr>"

definition clearLiveRegionText :: "page \<Rightarrow> page" where
  "clearLiveRegionText s = s\<lparr> liveRegion := [] \<rparr>"

text \<open>
  Lines 259 to 265 and 316 to 322: the third child node takes the text when there is
  one, otherwise a new text node is appended.
\<close>

definition set_error_text :: "string \<Rightarrow> error_element \<Rightarrow> error_element" where
  "set_error_text msg e =
     (if 2 < length (err_childNodes e)
      then e\<lparr> err_childNodes := (err_childNodes e)[2 := msg] \<rparr>
      else e\<lparr> err_childNodes := err_childNodes e @ [msg] \<rparr>)"

text \<open>The text node that \<open>set_error_text\<close> has written.\<close>

definition error_text_node :: "error_element \<Rightarrow> string" where
  "error_text_node e = (if 2 < length (err_childNodes e) then err_childNodes e ! 2 else last (err_childNodes e))"

text \<open>What each timer callback does when it runs.\<close>

fun run_callback :: "timer_action \<Rightarrow> page \<Rightarrow> page" where
  "run_callback HideError s =
     (case addToCartTextError s of
        None \<Rightarrow> s
      | Some e \<Rightarrow>
          clearLiveRegionText
            (s\<lparr> addToCartTextError := Some (e\<lparr> err_classList := classList_add ''hidden'' (err_classList e) \<rparr>) \<rparr>))"
| "run_callback EnableButton s =
     s\<lparr> addToCartButtonContainer := map_option enable (addToCartButtonContainer s) \<rparr>"
| "run_callback ClearAnnouncement s = clearLiveRegionText s"
| "run_callback AnimationEnd s =
     (case addToCartButtonContainer s of
        None \<Rightarrow> s
      | Some c \<Rightarrow>
          let (i, s1) = setTimeout AnimationCleanup 10 s
          in s1\<lparr> addToCartButtonContainer := Some (c\<lparr> cleanupTimeout := Some i \<rparr>) \<rparr>)"
| "run_callback AnimationCleanup s =
     (case addToCartButtonContainer s of
        None \<Rightarrow> s
      | Some c \<Rightarrow>
          s\<lparr> addToCartButtonContainer :=
               Some (c\<lparr> atc_classList := classList_remove ''atc-added'' (atc_classList c) \<rparr>) \<rparr>)"

text \<open>
  The pending timer with handle \<open>i\<close> fires: it leaves the pending timers, the clock
  stands at its due time (or later), and its callback runs.
\<close>

definition fire_timer :: "nat \<Rightarrow> page \<Rightarrow> page" where
  "fire_timer i s =
     (case find (\<lambda>t. tid t = i) (timers s) of
        None \<Rightarrow> s
      | Some t \<Rightarrow>
          run_callback (action t)
            (s\<lparr> now := max (now s) (due t), timers := filter (\<lambda>u. tid u \<noteq> i) (timers s) \<rparr>))"

subsection \<open>The cart quantity of the current variant\<close>

text \<open>
  The regular expression \<^verbatim>\<open>/\((\d+)\s+(.+)\)/\<close> of \<^verbatim>\<open>#updateQuantityLabel\<close>, on ASCII
  text. \<open>match_tail\<close> is \<^verbatim>\<open>(.+)\)\<close> at the start of \<open>r\<close>: the greedy group gives
  back characters until a closing parenthesis follows it, within one line.
\<close>

definition is_line_terminator :: "char \<Rightarrow> bool" where
  "is_line_terminator c = (c = CHR 0x0A \<or> c = CHR 0x0D)"

definition match_tail :: "string \<Rightarrow> string option" where
  "match_tail r =
     (let line = takeWhile (\<lambda>c. \<not> is_line_terminator c) r
      in case filter (\<lambda>k. line ! k = CHR '')'') (rev [1..<length line]) of
           [] \<Rightarrow> None
         | k # _ \<Rightarrow> Some (take k line))"

text \<open>
  After the opening parenthesis: all the digits, then white space, of which the
  greedy \<^verbatim>\<open>\s+\<close> gives back one character at a time while the rest fails.
\<close>

definition match_after_paren :: "string \<Rightarrow> string option" where
  "match_after_paren r =
     (let ds = takeWhile is_digit r;
          r1 = dropWhile is_digit r;
          ws = takeWhile is_space r1;
          r2 = dropWhile is_space r1
      in if ds = [] \<or> ws = [] then None
         else
           (case filter (\<lambda>g. g \<noteq> None)
                   (map (\<lambda>k. match_tail (drop k ws @ r2)) (rev [1..<Suc (length ws)])) of
              [] \<Rightarrow> None
            | g # _ \<Rightarrow> g))"

text \<open>The second group of the leftmost match, when there is a match.\<close>

fun match_in_cart :: "string \<Rightarrow> string option" where
  "match_in_cart [] = None"
| "match_in_cart (c # cs) =
     (case (if c = CHR ''('' then match_after_paren cs else None) of
        Some g \<Rightarrow> Some g
      | None \<Rightarrow> match_in_cart cs)"

text \<open>\<^verbatim>\<open>#updateQuantityLabel(cartQty)\<close>, lines 395 to 406.\<close>

definition updateQuantityLabel :: "int \<Rightarrow> page \<Rightarrow> page" where
  "updateQuantityLabel cartQty s =
     (case quantityLabelCartCount s of
        None \<Rightarrow> s
      | Some l \<Rightarrow>
          let l1 = (case match_in_cart (label_textContent l) of
                      Some g \<Rightarrow>
                        l\<lparr> label_textContent := ''('' @ string_of_int cartQty @ '' '' @ g @ '')'' \<rparr>
                    | None \<Rightarrow> l);
              l2 = l1\<lparr> label_classList :=
                         classList_toggle ''hidden'' (cartQty = 0) (label_classList l1) \<rparr>
          in s\<lparr> quantityLabelCartCount := Some l2 \<rparr>)"

text \<open>The text of the input that \<^verbatim>\<open>this.querySelector('input[name="id"]')\<close> finds.\<close>

definition variantIdInput :: "page \<Rightarrow> string option" where
  "variantIdInput s =
     (case idInput s of
        NoIdInput \<Rightarrow> None
      | VariantIdRef \<Rightarrow> Some (variantId s)
      | OtherIdInput v \<Rightarrow> Some v)"

text \<open>
  The body of the \<^verbatim>\<open>try\<close> block of \<^verbatim>\<open>#fetchAndUpdateCartQuantity\<close>, lines 191 to
  209, given what the request for \<^verbatim>\<open>/cart.js\<close> comes to: a rejected fetch, a body
  that is not JSON and a cart without \<^verbatim>\<open>items\<close> throw.
\<close>

definition fetchCartQuantity_try :: "cart reply \<Rightarrow> string \<Rightarrow> page \<Rightarrow> js_error + (int \<times> page)" where
  "fetchCartQuantity_try r v s =
     (case r of
        FetchRejected \<Rightarrow> Inl (TypeError ''Failed to fetch'')
      | JsonRejected \<Rightarrow> Inl (SyntaxError ''Unexpected token'')
      | Json c \<Rightarrow>
          (case items c of
             None \<Rightarrow> Inl (TypeError ''cart.items is undefined'')
           | Some its \<Rightarrow>
               let cartItem = find (\<lambda>item. string_of_nat (unat (variant_id item)) = v) its;
                   cartQty = (case cartItem of None \<Rightarrow> 0 | Some item \<Rightarrow> uint (quantity item));
                   s1 = (case quantitySelector s of
                           None \<Rightarrow> s
                         | Some w \<Rightarrow>
                             if has_setCartQuantity w
                             then s\<lparr> quantitySelector := Some (w\<lparr> cartQuantity := cartQty \<rparr>) \<rparr>
                             else s);
                   s2 = updateQuantityLabel cartQty s1
               in Inr (cartQty, s2)))"

text \<open>
  \<^verbatim>\<open>#fetchAndUpdateCartQuantity()\<close>, lines 186 to 214, in two parts. The first runs
  when the function is called: without a variant id it returns, otherwise it sends the
  request. The second runs when the request has come to \<open>r\<close>, with \<^verbatim>\<open>catch\<close> around
  the body.
\<close>

definition fetchCartQuantity_send :: "page \<Rightarrow> page" where
  "fetchCartQuantity_send s =
     (if \<not> truthy_str (variantIdInput s) then s else fetch (Get ''/cart.js'') s)"

definition fetchCartQuantity_settle :: "cart reply \<Rightarrow> page \<Rightarrow> int \<times> page" where
  "fetchCartQuantity_settle r s =
     (case variantIdInput s of
        None \<Rightarrow> (0, s)
      | Some v \<Rightarrow>
          (case fetchCartQuantity_try r v s of
             Inl e \<Rightarrow> (0, console_error e s)
           | Inr res \<Rightarrow> res))"

definition fetchAndUpdateCartQuantity :: "cart reply \<Rightarrow> page \<Rightarrow> int \<times> page" where
  "fetchAndUpdateCartQuantity r s =
     (if \<not> truthy_str (variantIdInput s) then (0, s)
      else fetchCartQuantity_settle r (fetchCartQuantity_send s))"

subsection \<open>Submitting the form\<close>

text \<open>\<^verbatim>\<open>ids.join(',')\<close>.\<close>

fun join_comma :: "string list \<Rightarrow> string" where
  "join_comma [] = []"
| "join_comma [a] = a"
| "join_comma (a # b # rest) = a @ '','' @ join_comma (b # rest)"

text \<open>
  The \<^verbatim>\<open>forEach\<close> of lines 289 to 294 over the \<^verbatim>\<open>cart-items-component\<close> elements,
  each given by its \<^verbatim>\<open>data-section-id\<close>: an element with a section id adds it to the
  list, and every element appends a \<^verbatim>\<open>sections\<close> entry with the list so far.
\<close>

fun append_sections ::
  "string option list \<Rightarrow> string list \<Rightarrow> (string \<times> string) list \<Rightarrow> (string \<times> string) list" where
  "append_sections [] ids fd = fd"
| "append_sections (item # rest) ids fd =
     (let ids1 = (case item of
                    None \<Rightarrow> ids
                  | Some sid \<Rightarrow> if sid \<noteq> [] then ids @ [sid] else ids)
      in append_sections rest ids1 (fd @ [(''sections'', join_comma ids1)]))"

text \<open>\<^verbatim>\<open>formData.get(name)\<close>: the first entry of that name.\<close>

definition formData_get :: "string \<Rightarrow> (string \<times> string) list \<Rightarrow> string option" where
  "formData_get name fd = map_of fd name"

text \<open>
  Lines 252 to 281: the validation \<open>v\<close> has rejected the quantity. The error text and
  its timer are inside \<^verbatim>\<open>if (addToCartTextError)\<close>; the timer that re-enables the
  button is not.
\<close>

definition reject_quantity :: "validation \<Rightarrow> page \<Rightarrow> page" where
  "reject_quantity v s =
     (let s1 = s\<lparr> addToCartButtonContainer := map_option disable (addToCartButtonContainer s) \<rparr>;
          errorTemplate = (case quantityErrorMax s1 of None \<Rightarrow> [] | Some tmpl \<Rightarrow> tmpl);
          errorMessage = string_replace ''{{ maximum }}'' (string_of_int (maxQuantity v)) errorTemplate;
          s2 = (case addToCartTextError s1 of
                  None \<Rightarrow> s1
                | Some e \<Rightarrow>
                    let e1 = e\<lparr> err_classList := classList_remove ''hidden'' (err_classList e) \<rparr>;
                        e2 = set_error_text errorMessage e1;
                        s3 = setLiveRegionText errorMessage (s1\<lparr> addToCartTextError := Some e2 \<rparr>);
                        s4 = clear_if_set (timeout s3) s3;
                        (i, s5) = setTimeout HideError ERROR_MESSAGE_DISPLAY_DURATION s4
                    in s5\<lparr> timeout := Some i \<rparr>)
      in snd (setTimeout EnableButton ERROR_BUTTON_REENABLE_DELAY s2))"

text \<open>Lines 285 to 304: the form data with the section ids, sent to the cart-add URL.\<close>

definition build_formData :: "form_element \<Rightarrow> page \<Rightarrow> (string \<times> string) list" where
  "build_formData f s = append_sections (cartItemsComponents s) [] (form_entries f)"

definition send_cart_add :: "form_element \<Rightarrow> page \<Rightarrow> page" where
  "send_cart_add f s = fetch (Post (cart_add_url s) (build_formData f s)) s"

text \<open>
  \<^verbatim>\<open>handleSubmit(event)\<close>, lines 232 to 304, up to the call of \<^verbatim>\<open>fetch\<close>; what the
  promise chain does with the answer is \<open>handleSubmit_response\<close> below.
  \<^verbatim>\<open>event.preventDefault()\<close> changes nothing that the state holds.
\<close>

definition handleSubmit :: "page \<Rightarrow> outcome" where
  "handleSubmit s0 =
     (let s = clear_if_set (timeout s0) s0
      in if (case addToCartButtonContainer s of None \<Rightarrow> False | Some c \<Rightarrow> disabled c)
         then Returned s
         else
           (case form s of
              None \<Rightarrow> Threw (Error ''Product form element missing'') s
            | Some f \<Rightarrow>
                (case validation_of (quantitySelector s) of
                   None \<Rightarrow> Returned (send_cart_add f s)
                 | Some v \<Rightarrow>
                     if \<not> canAdd v then Returned (reject_quantity v s)
                     else Returned (send_cart_add f s))))"

text \<open>
  \<^verbatim>\<open>Number(formData.get('quantity')) || Number(this.dataset.quantityDefault)\<close>,
  lines 341 and 376.
\<close>

definition item_count :: "(string \<times> string) list \<Rightarrow> page \<Rightarrow> jsnum" where
  "item_count fd s =
     num_or (Number_of_entry (formData_get ''quantity'' fd)) (Number_of_data (quantityDefault s))"

text \<open>Truthiness of \<^verbatim>\<open>response.status\<close>.\<close>

definition truthy_status :: "add_response \<Rightarrow> bool" where
  "truthy_status r = (case status r of None \<Rightarrow> False | Some n \<Rightarrow> n \<noteq> 0)"

text \<open>The error branch of the callback, lines 308 to 346.\<close>

definition response_error :: "(string \<times> string) list \<Rightarrow> form_element \<Rightarrow> add_response \<Rightarrow> page \<Rightarrow> outcome" where
  "response_error fd f r s =
     (let s1 = dispatchEvent
                 (CartErrorEvent
                    \<lparr> ce_sourceId = (case form_id f of None \<Rightarrow> [] | Some i \<Rightarrow> i),
                      ce_message = message r,
                      ce_description = description r,
                      ce_errors = errors r \<rparr>) s
      in case addToCartTextError s1 of
           None \<Rightarrow> Returned s1
         | Some e \<Rightarrow>
             let e1 = e\<lparr> err_classList := classList_remove ''hidden'' (err_classList e) \<rparr>;
                 e2 = set_error_text (message r) e1;
                 s2 = setLiveRegionText (message r) (s1\<lparr> addToCartTextError := Some e2 \<rparr>);
                 (i, s3) = setTimeout HideError ERROR_MESSAGE_DISPLAY_DURATION s2;
                 s4 = s3\<lparr> timeout := Some i \<rparr>
             in Returned
                  (dispatchEvent
                     (CartAddEvent
                        \<lparr> ca_sourceId = component_id s4,
                          didError = True,
                          source = ''product-form-component'',
                          itemCount = item_count fd s4,
                          ca_productId = productId s4,
                          ca_sections = None \<rparr>) s4))"

text \<open>
  The text announced after a successful add:
  \<^verbatim>\<open>addedTextElement?.textContent?.trim() || Theme.translations.added\<close>.
\<close>

definition added_text :: "add_to_cart \<Rightarrow> page \<Rightarrow> string" where
  "added_text c s =
     (case atc_addedText c of
        None \<Rightarrow> translations_added s
      | Some txt \<Rightarrow> if trim txt \<noteq> [] then trim txt else translations_added s)"

text \<open>The success branch of the callback, lines 348 to 380.\<close>

definition response_success :: "(string \<times> string) list \<Rightarrow> add_response \<Rightarrow> page \<Rightarrow> outcome" where
  "response_success fd r s =
     (let s1 = (case addToCartTextError s of
                  None \<Rightarrow> s
                | Some e \<Rightarrow>
                    s\<lparr> addToCartTextError :=
                         Some (e\<lparr> err_classList := classList_add ''hidden'' (err_classList e),
                                  err_aria_live := None \<rparr>) \<rparr>)
      in case formData_get ''id'' fd of
           None \<Rightarrow> Threw (Error ''Form ID is required'') s1
         | Some i \<Rightarrow>
             if i = [] then Threw (Error ''Form ID is required'') s1
             else
               let s2 = (case addToCartButtonContainer s1 of
                           None \<Rightarrow> s1
                         | Some c \<Rightarrow>
                             snd (setTimeout ClearAnnouncement SUCCESS_MESSAGE_DISPLAY_DURATION
                                    (setLiveRegionText (added_text c s1) s1)));
                   s3 = fetchCartQuantity_send s2
               in Returned
                    (dispatchEvent
                       (CartAddEvent
                          \<lparr> ca_sourceId = i,
                            didError = False,
                            source = ''product-form-component'',
                            itemCount = item_count fd s3,
                            ca_productId = productId s3,
                            ca_sections = Some (sections r) \<rparr>) s3))"

text \<open>The callback of lines 306 to 382, given the parsed answer.\<close>

definition handleSubmit_then :: "(string \<times> string) list \<Rightarrow> form_element \<Rightarrow> add_response \<Rightarrow> page \<Rightarrow> outcome" where
  "handleSubmit_then fd f r s =
     (if truthy_status r then response_error fd f r s else response_success fd r s)"

text \<open>
  The promise chain of lines 298 to 388 once the request has come to \<open>rp\<close>: a
  fetch that rejects, a body that is not JSON and an error thrown by the callback all
  end in \<^verbatim>\<open>.catch\<close>, which logs them. The callbacks use the form data and the form
  of the submission; the elements that \<^verbatim>\<open>handleSubmit\<close> took from \<^verbatim>\<open>this.refs\<close> are
  the ones of the page. The performance measurement in \<^verbatim>\<open>.finally\<close> changes
  nothing that the state holds.
\<close>

definition handleSubmit_response :: "(string \<times> string) list \<Rightarrow> form_element \<Rightarrow> add_response reply \<Rightarrow> page \<Rightarrow> page" where
  "handleSubmit_response fd f rp s =
     (case rp of
        FetchRejected \<Rightarrow> console_error (TypeError ''Failed to fetch'') s
      | JsonRejected \<Rightarrow> console_error (SyntaxError ''Unexpected token'') s
      | Json r \<Rightarrow>
          (case handleSubmit_then fd f r s of
             Returned s1 \<Rightarrow> s1
           | Threw e s1 \<Rightarrow> console_error e s1))"

subsection \<open>Variant changes\<close>

text \<open>
  The variant that a variant-update event carries (\<^verbatim>\<open>event.detail.resource\<close>); its id
  is a whole number below \<open>2 ^ 53\<close>, as the ids of the cart are.
\<close>

record variant_resource =
  resource_id :: "53 word"
  available :: bool
  featured_media_src :: "string option"

text \<open>
  The button \<^verbatim>\<open>[ref="addToCartButton"]\<close> of the event's HTML: its \<^verbatim>\<open>disabled\<close>
  attribute, its classes, its inner markup and the text of its
  \<^verbatim>\<open>.add-to-cart-text--added\<close> child.
\<close>

record button_html =
  new_disabled :: bool
  new_classList :: "string list"
  new_markup :: string
  new_addedText :: "string option"

text \<open>The input \<^verbatim>\<open>quantity-selector-component input[ref="quantityInput"]\<close> of the event's HTML.\<close>

record quantity_input =
  input_min :: string
  input_max :: string
  input_step :: string

text \<open>
  The event: the id of \<^verbatim>\<open>data.newProduct\<close> when there is one, \<^verbatim>\<open>data.productId\<close>,
  the variant, and what the queries on \<^verbatim>\<open>data.html\<close> find: the button, the quantity
  input, the markup of \<^verbatim>\<open>.quantity-rules\<close> and of \<^verbatim>\<open>.quantity-label\<close>, and the
  region \<^verbatim>\<open>.product-form-buttons\<close>.

  Modelled from the spec: \<^verbatim>\<open>morph\<close> of \<^verbatim>\<open>@theme/morph\<close> is not among the sources;
  the spec defines it as an in-place reconciliation "that updates an existing subtree to
  match a new one". Which elements of the page lie in the subtree of the buttons region
  is decided by markup that is not among the sources either, so the event carries the
  new region as the function that takes the page before the region is morphed to the
  page after it.
\<close>

record variant_update_event =
  newProduct :: "string option"
  event_productId :: "string option"
  resource :: "variant_resource option"
  newAddToCartButton :: "button_html option"
  newQuantityInput :: "quantity_input option"
  newQuantityRules :: "string option"
  newQuantityLabel :: "string option"
  newProductFormButtons :: "(page \<Rightarrow> page) option"












text \<open>\<^verbatim>\<open>#onVariantSelected\<close>, lines 550 to 552.\<close>

definition onVariantSelected :: "page \<Rightarrow> page" where
  "onVariantSelected s = s\<lparr> addToCartButtonContainer := map_option disable (addToCartButtonContainer s) \<rparr>"

section \<open>The fly-to-cart effect\<close>

text \<open>
  JavaScript numbers of the geometry are read as real numbers: the statements about
  the path are about the arithmetic the code writes down, taken exactly.
\<close>

record point =
  x :: real
  y :: real

text \<open>
  \<^verbatim>\<open>function bezierPoint(t, p0, p1, p2, p3)\<close>, lines 650 to 663: the curve in
  power-basis form, with \<^verbatim>\<open>Math.pow(t, 3)\<close> and \<^verbatim>\<open>Math.pow(t, 2)\<close> as powers.
\<close>

definition bezierPoint :: "real \<Rightarrow> point \<Rightarrow> point \<Rightarrow> point \<Rightarrow> point \<Rightarrow> point" where
  "bezierPoint t p0 p1 p2 p3 =
     (let cX = 3 * (x p1 - x p0);
          bX = 3 * (x p2 - x p1) - cX;
          aX = x p3 - x p0 - cX - bX;
          cY = 3 * (y p1 - y p0);
          bY = 3 * (y p2 - y p1) - cY;
          aY = y p3 - y p0 - cY - bY
      in \<lparr> x = aX * t ^ 3 + bX * t ^ 2 + cX * t + x p0,
           y = aY * t ^ 3 + bY * t ^ 2 + cY * t + y p0 \<rparr>)"

text \<open>What \<^verbatim>\<open>getBoundingClientRect()\<close> returns, as far as the code reads it.\<close>

record rect =
  rect_left :: real
  rect_top :: real
  rect_width :: real
  rect_height :: real


text \<open>The constants that \<^verbatim>\<open>#animate()\<close> computes before the first frame, lines 571 to 598.\<close>

record flight =
  offset :: point
  startPoint :: point
  endPoint :: point
  controlPoint1 :: point
  controlPoint2 :: point
  duration :: real

definition animate_flight :: "rect \<Rightarrow> rect \<Rightarrow> rect \<Rightarrow> flight" where
  "animate_flight own sourceRect destinationRect =
     (let off = \<lparr> x = rect_width own / 2, y = rect_height own / 2 \<rparr>;
          sp = \<lparr> x = rect_left sourceRect + rect_width sourceRect / 2 - x off,
                 y = rect_top sourceRect + rect_height sourceRect / 2 - y off \<rparr>;
          ep = \<lparr> x = rect_left destinationRect + rect_width destinationRect / 2 - x off,
                 y = rect_top destinationRect + rect_height destinationRect / 2 - y off \<rparr>
      in \<lparr> offset = off,
           startPoint = sp,
           endPoint = ep,
           controlPoint1 = \<lparr> x = x sp, y = y sp - 200 \<rparr>,
           controlPoint2 = \<lparr> x = x ep - 300, y = y ep - 100 \<rparr>,
           duration = 600 \<rparr>)"

text \<open>
  The element while it flies: the start time (\<^verbatim>\<open>null\<close> at first), the custom
  properties \<^verbatim>\<open>--x\<close>, \<^verbatim>\<open>--y\<close> and \<^verbatim>\<open>--scale\<close>, the opacity, and whether another
  frame has been requested.
\<close>

record fly_to_cart =
  startTime :: "real option"
  style_x :: real
  style_y :: real
  style_scale :: real
  style_opacity :: real
  frame_requested :: bool

text \<open>\<^verbatim>\<open>progress\<close> of a frame: \<^verbatim>\<open>Math.min(elapsed / duration, 1)\<close>.\<close>

definition frame_progress :: "flight \<Rightarrow> real \<Rightarrow> real" where
  "frame_progress fl elapsed = min (elapsed / duration fl) 1"

text \<open>
  The frame callback \<^verbatim>\<open>animate(currentTime)\<close>, lines 606 to 630;
  \<^verbatim>\<open>if (!startTime)\<close> also takes a start time of \<open>0\<close> for unset.
\<close>

definition animate_frame :: "flight \<Rightarrow> real \<Rightarrow> fly_to_cart \<Rightarrow> fly_to_cart" where
  "animate_frame fl currentTime e =
     (let st = (case startTime e of
                  None \<Rightarrow> currentTime
                | Some t0 \<Rightarrow> if t0 = 0 then currentTime else t0);
          elapsed = currentTime - st;
          progress = frame_progress fl elapsed;
          position = bezierPoint progress (startPoint fl) (controlPoint1 fl) (controlPoint2 fl) (endPoint fl);
          e1 = e\<lparr> startTime := Some st,
                  style_x := x position,
                  style_y := y position,
                  style_scale := 1 - progress * 0.5 \<rparr>
      in if progress < 1 then e1\<lparr> frame_requested := True \<rparr>
         else e1\<lparr> style_opacity := 0, frame_requested := False \<rparr>)"

section \<open>Example pages\<close>

text \<open>
  A product page at time \<open>0\<close> with nothing pending: quantity five is asked for, the
  widget allows at most three, and the error element is hidden.
\<close>

definition example_selector :: quantity_selector where
  "example_selector =
     \<lparr> canAddToCart = Some \<lparr> canAdd = False, maxQuantity = 3 \<rparr>,
       has_setCartQuantity = True,
       cartQuantity = 0,
       has_updateConstraints = True,
       getValue = Some ''5'',
       has_setValue = True,
       widget_calls = [] \<rparr>"

definition example_button :: add_to_cart where
  "example_button =
     \<lparr> disabled = False,
       atc_classList = [],
       atc_markup = ''Add to cart'',
       atc_addedText = Some '' Added '',
       animationTimeout = None,
       cleanupTimeout = None,
       addToCartAnimation = Some ''true'',
       productVariantMedia = Some ''img.png'',
       closest_form = Some \<lparr> checkValidity = True, form_quantitySelector = None \<rparr> \<rparr>"

definition example_form :: form_element where
  "example_form = \<lparr> form_id = Some ''f1'', form_entries = [(''id'', ''42''), (''quantity'', ''5'')] \<rparr>"

definition example_page :: page where
  "example_page =
     \<lparr> now = 0,
       timer_counter = 0,
       timers = [],
       requests = [],
       events = [],
       console_errors = [],
       fly_to_cart_elements = [],
       cartIcon = True,
       cartItemsComponents = [Some ''cart-drawer''],
       translations_added = ''Added'',
       cart_add_url = ''/cart/add'',
       component_id = ''ProductForm-1'',
       timeout = None,
       addToCartTextError =
         Some \<lparr> err_classList = [''hidden''], err_childNodes = [''!'', '' ''], err_aria_live = None \<rparr>,
       addToCartButtonContainer = Some example_button,
       acceleratedCheckoutButtonContainer = Some \<lparr> attr_hidden = None \<rparr>,
       liveRegion = [],
       variantId = ''42'',
       idInput = VariantIdRef,
       form = Some example_form,
       quantitySelector = Some example_selector,
       quantityErrorMax = Some ''Max {{ maximum }}'',
       quantityDefault = Some ''1'',
       productId = Some ''7'',
       quantityLabelCartCount =
         Some \<lparr> label_textContent = ''(2 in cart)'', label_classList = [] \<rparr>,
       quantityRules = None,
       quantityLabel = Some ''Quantity'',
       productFormButtons = True \<rparr>"

text \<open>The same page without the optional error element.\<close>

definition example_page_no_error :: page where
  "example_page_no_error = example_page\<lparr> addToCartTextError := None \<rparr>"

text \<open>The same page with a widget that accepts the quantity.\<close>

definition example_page_accepting :: page where
  "example_page_accepting =
     example_page\<lparr> quantitySelector :=
                    Some (example_selector\<lparr> canAddToCart := Some \<lparr> canAdd = True, maxQuantity = 9 \<rparr> \<rparr>) \<rparr>"

text \<open>The server's answer when the product is sold out, and a successful answer.\<close>

definition sold_out :: add_response where
  "sold_out =
     \<lparr> status = Some 422, message = ''Sold out'', description = ''Sold out'', errors = [], sections = [] \<rparr>"

definition added_ok :: add_response where
  "added_ok = \<lparr> status = None, message = [], description = [], errors = [], sections = ''{}'' \<rparr>"


text \<open>A click outside the quick-add modal.\<close>

definition example_click :: click_event where
  "example_click = \<lparr> target_in_quick_add_modal = False \<rparr>"

text \<open>
  A change to a variant of the same product that is not available; the button of the
  HTML is disabled.
\<close>

definition example_variant_event :: variant_update_event where
  "example_variant_event =
     \<lparr> newProduct = None,
       event_productId = Some ''7'',
       resource = Some \<lparr> resource_id = 43, available = False, featured_media_src = None \<rparr>,
       newAddToCartButton =
         Some \<lparr> new_disabled = True, new_classList = [], new_markup = ''Sold out'',
                new_addedText = None \<rparr>,
       newQuantityInput = Some \<lparr> input_min = ''1'', input_max = [], input_step = ''1'' \<rparr>,
       newQuantityRules = None,
       newQuantityLabel = Some ''Quantity'',
       newProductFormButtons = None \<rparr>"

text \<open>The same change with HTML whose button is not disabled.\<close>

definition example_stale_event :: variant_update_event where
  "example_stale_event =
     example_variant_event
       \<lparr> newAddToCartButton :=
           Some \<lparr> new_disabled = False, new_classList = [], new_markup = ''Add to cart'',
                  new_addedText = Some '' Added '' \<rparr> \<rparr>"

text \<open>A change back to a variant that is available; the button of the HTML is enabled.\<close>

definition example_available_event :: variant_update_event where
  "example_available_event =
     example_variant_event
       \<lparr> resource := Some \<lparr> resource_id = 42, available = True, featured_media_src = None \<rparr>,
         newAddToCartButton :=
           Some \<lparr> new_disabled = False, new_classList = [], new_markup = ''Add to cart'',
                  new_addedText = Some '' Added '' \<rparr> \<rparr>"

text \<open>The page with both controls switched off.\<close>

definition example_page_sold_out :: page where
  "example_page_sold_out =
     example_page
       \<lparr> addToCartButtonContainer := Some (example_button\<lparr> disabled := True \<rparr>),
         acceleratedCheckoutButtonContainer := Some \<lparr> attr_hidden = Some ''true'' \<rparr> \<rparr>"

text \<open>
  Two submissions in a row while the widget accepts, both answered with an error: the
  first answer comes after 200 milliseconds and the second 4800 milliseconds later.
\<close>

definition example_double_submit :: page where
  "example_double_submit =
     (let s1 = state_of (handleSubmit example_page_accepting);
          s2 = state_of (handleSubmit s1);
          fd = build_formData example_form example_page_accepting;
          s3 = handleSubmit_response fd example_form (Json sold_out) (elapse 200 s2)
      in handleSubmit_response fd example_form (Json sold_out) (elapse 4800 s3))"

text \<open>One submission on the page without the error element, answered with an error.\<close>

definition example_error_no_element :: page where
  "example_error_no_element =
     (let s0 = example_page_accepting\<lparr> addToCartTextError := None \<rparr>;
          s1 = state_of (handleSubmit s0)
      in handleSubmit_response (build_formData example_form s0) example_form (Json sold_out) s1)"

text \<open>The page with an earlier error still on display.\<close>

definition example_page_error_shown :: page where
  "example_page_error_shown =
     example_page_accepting
       \<lparr> addToCartTextError :=
           Some \<lparr> err_classList = [], err_childNodes = [''!'', '' '', ''Sold out''], err_aria_live = None \<rparr>,
         liveRegion := ''Sold out'' \<rparr>"

text \<open>A cart that holds four of variant 42.\<close>

definition example_cart :: cart where
  "example_cart =
     \<lparr> items = Some [\<lparr> variant_id = 41, quantity = 1 \<rparr>, \<lparr> variant_id = 42, quantity = 4 \<rparr>] \<rparr>"

section \<open>Properties of the fly-to-cart effect\<close>

text \<open>
  Claim C10. Over the real numbers, for every parameter \<open>t\<close> and all points,
  \<open>bezierPoint\<close> is the cubic Bezier curve in Bernstein form in each coordinate;
  at \<open>t = 0\<close> it is the first point and at \<open>t = 1\<close> the last.
\<close>

theorem bezierPoint_bernstein:
  "x (bezierPoint t p0 p1 p2 p3) =
     (1 - t) ^ 3 * x p0 + 3 * (1 - t) ^ 2 * t * x p1 + 3 * (1 - t) * t ^ 2 * x p2 + t ^ 3 * x p3 \<and>
   y (bezierPoint t p0 p1 p2 p3) =
     (1 - t) ^ 3 * y p0 + 3 * (1 - t) ^ 2 * t * y p1 + 3 * (1 - t) * t ^ 2 * y p2 + t ^ 3 * y p3 \<and>
   bezierPoint 0 p0 p1 p2 p3 = p0 \<and>
   bezierPoint 1 p0 p1 p2 p3 = p3"
  unfolding bezierPoint_def Let_def
  by (simp add: power3_eq_cube power2_eq_square algebra_simps)


text \<open>
  The first frame puts the element at the start point and asks for another frame; a frame
  600 milliseconds or more after the first puts it at the end point, fades it out and asks
  for no further frame.
\<close>

lemma first_frame_at_start:
  assumes "startTime e = None"
  shows "style_x (animate_frame (animate_flight own src dst) t e) = x (startPoint (animate_flight own src dst))"
    and "style_y (animate_frame (animate_flight own src dst) t e) = y (startPoint (animate_flight own src dst))"
    and "frame_requested (animate_frame (animate_flight own src dst) t e)"
  using assms
  by (simp_all add: animate_frame_def frame_progress_def animate_flight_def bezierPoint_def Let_def)

lemma last_frame_at_end:
  assumes "startTime e = Some t0" and "t0 \<noteq> 0" and "t0 + 600 \<le> t"
  shows "style_x (animate_frame (animate_flight own src dst) t e) = x (endPoint (animate_flight own src dst))"
    and "style_y (animate_frame (animate_flight own src dst) t e) = y (endPoint (animate_flight own src dst))"
    and "\<not> frame_requested (animate_frame (animate_flight own src dst) t e)"
    and "style_opacity (animate_frame (animate_flight own src dst) t e) = 0"
proof -
  have "frame_progress (animate_flight own src dst) (t - t0) = 1"
    using assms(3) by (simp add: frame_progress_def animate_flight_def Let_def min_def)
  then show "style_x (animate_frame (animate_flight own src dst) t e) = x (endPoint (animate_flight own src dst))"
    and "style_y (animate_frame (animate_flight own src dst) t e) = y (endPoint (animate_flight own src dst))"
    and "\<not> frame_requested (animate_frame (animate_flight own src dst) t e)"
    and "style_opacity (animate_frame (animate_flight own src dst) t e) = 0"
    using assms(1,2)
    by (simp_all add: animate_frame_def bezierPoint_def Let_def)
qed

section \<open>Timers and class lists\<close>

text \<open>The equations that evaluate the handlers on a concrete page.\<close>

lemmas example_defs =
  example_page_def example_page_no_error_def example_page_accepting_def
  example_page_error_shown_def example_button_def example_selector_def example_form_def
  example_click_def example_variant_event_def example_stale_event_def
  example_available_event_def example_page_sold_out_def example_cart_def sold_out_def
  added_ok_def

lemmas handler_defs =
  handleSubmit_def reject_quantity_def send_cart_add_def build_formData_def
  handleSubmit_response_def handleSubmit_then_def response_error_def response_success_def
  item_count_def truthy_status_def added_text_def formData_get_def validation_of_def
  fetchCartQuantity_send_def variantIdInput_def truthy_str_def
  handleClick_def animateAddToCart_def animateFlyToCart_def click_valid_def atc_added_def
  fire_timer_def setTimeout_def clearTimeout_def clear_if_set_def elapse_def
  dispatchEvent_def fetch_def console_error_def setLiveRegionText_def clearLiveRegionText_def
  set_error_text_def error_text_node_def disable_def enable_def
  classList_add_def classList_remove_def classList_contains_def
  ADD_TO_CART_TEXT_ANIMATION_DURATION_def ERROR_MESSAGE_DISPLAY_DURATION_def
  ERROR_BUTTON_REENABLE_DELAY_def SUCCESS_MESSAGE_DISPLAY_DURATION_def
  string_of_int_def string_of_nat.simps digit_char_def Let_def


lemma timers_wf_setTimeout: "timers_wf s \<Longrightarrow> timers_wf (snd (setTimeout a d s))"
  by (auto simp add: timers_wf_def setTimeout_def Let_def)

lemma timers_wf_clearTimeout: "timers_wf s \<Longrightarrow> timers_wf (clearTimeout i s)"
  by (auto simp add: timers_wf_def clearTimeout_def)

lemma timers_wf_clear_if_set: "timers_wf s \<Longrightarrow> timers_wf (clear_if_set h s)"
  by (auto simp add: clear_if_set_def timers_wf_clearTimeout split: option.splits)

lemma timer_counter_clear_if_set [simp]: "timer_counter (clear_if_set h s) = timer_counter s"
  by (simp add: clear_if_set_def clearTimeout_def split: option.splits)

lemma now_clear_if_set [simp]: "now (clear_if_set h s) = now s"
  by (simp add: clear_if_set_def clearTimeout_def split: option.splits)

lemma clear_if_set_twice: "timers (clear_if_set h (clear_if_set h s)) = timers (clear_if_set h s)"
  by (simp add: clear_if_set_def clearTimeout_def split: option.splits)

text \<open>Old timers whose handles differ from \<open>i\<close> are passed over when \<open>i\<close> fires.\<close>

lemma find_append_fresh:
  assumes "\<forall>t \<in> set old. tid t \<noteq> i"
  shows "find (\<lambda>t. tid t = i) (old @ rest) = find (\<lambda>t. tid t = i) rest"
  using assms by (induction old) auto

lemma filter_append_fresh:
  assumes "\<forall>t \<in> set old. tid t \<noteq> i"
  shows "filter (\<lambda>t. tid t \<noteq> i) (old @ rest) = old @ filter (\<lambda>t. tid t \<noteq> i) rest"
  using assms by (induction old) auto

lemma fire_timer_found:
  assumes "find (\<lambda>t. tid t = i) (timers s) = Some t"
  shows "fire_timer i s =
           run_callback (action t)
             (s\<lparr> now := max (now s) (due t), timers := filter (\<lambda>u. tid u \<noteq> i) (timers s) \<rparr>)"
  using assms by (simp add: fire_timer_def)

lemma classList_contains_add: "classList_contains c (classList_add c cs)"
  by (simp add: classList_contains_def classList_add_def)

lemma not_contains_remove: "\<not> classList_contains c (classList_remove c cs)"
  by (simp add: classList_contains_def classList_remove_def)



section \<open>Properties of the cart quantity refetch\<close>

text \<open>
  Claim C8. \<^verbatim>\<open>#fetchAndUpdateCartQuantity\<close> always returns a number: \<open>0\<close> when the
  variant-id input is missing or empty, when the fetch rejects, when the body is not
  JSON and when the cart has no items array, and otherwise the quantity of the first
  cart item whose \<^verbatim>\<open>variant_id\<close> prints as the text of the input, or \<open>0\<close> when there
  is none; the ids and quantities of the cart are whole numbers below \<open>2 ^ 53\<close>. Whatever the request comes to, the error element and the live region stay as
  they are, no event is dispatched and no timer is set.
\<close>

theorem fetchAndUpdateCartQuantity_result:
  "fst (fetchAndUpdateCartQuantity r s) =
     (case variantIdInput s of
        None \<Rightarrow> 0
      | Some v \<Rightarrow>
          if v = [] then 0
          else
            (case r of
               FetchRejected \<Rightarrow> 0
             | JsonRejected \<Rightarrow> 0
             | Json c \<Rightarrow>
                 (case items c of
                    None \<Rightarrow> 0
                  | Some its \<Rightarrow>
                      (case find (\<lambda>item. string_of_nat (unat (variant_id item)) = v) its of
                         None \<Rightarrow> 0
                       | Some item \<Rightarrow> uint (quantity item))))) \<and>
   addToCartTextError (snd (fetchAndUpdateCartQuantity r s)) = addToCartTextError s \<and>
   liveRegion (snd (fetchAndUpdateCartQuantity r s)) = liveRegion s \<and>
   events (snd (fetchAndUpdateCartQuantity r s)) = events s \<and>
   timers (snd (fetchAndUpdateCartQuantity r s)) = timers s"
  by (auto simp add: fetchAndUpdateCartQuantity_def fetchCartQuantity_settle_def
      fetchCartQuantity_send_def fetchCartQuantity_try_def variantIdInput_def truthy_str_def
      fetch_def console_error_def updateQuantityLabel_def Let_def
      split: option.splits reply.splits id_input.splits sum.splits)

theorem fetchAndUpdateCartQuantity_result_witness:
  "fst (fetchAndUpdateCartQuantity (Json example_cart) example_page) = 4 \<and>
   fst (fetchAndUpdateCartQuantity FetchRejected example_page) = 0 \<and>
   fst (fetchAndUpdateCartQuantity JsonRejected example_page) = 0 \<and>
   fst (fetchAndUpdateCartQuantity (Json example_cart) (example_page\<lparr> idInput := NoIdInput \<rparr>)) = 0"
  using fetchAndUpdateCartQuantity_result [of "Json example_cart" example_page]
    fetchAndUpdateCartQuantity_result [of FetchRejected example_page]
    fetchAndUpdateCartQuantity_result [of JsonRejected example_page]
    fetchAndUpdateCartQuantity_result [of "Json example_cart" "example_page\<lparr> idInput := NoIdInput \<rparr>"]
  by (simp add: variantIdInput_def example_page_def example_cart_def string_of_nat.simps digit_char_def)

section \<open>Properties of a submission that the quantity widget rejects\<close>

lemma handleSubmit_rejected:
  assumes "\<not> (case addToCartButtonContainer s of None \<Rightarrow> False | Some c \<Rightarrow> disabled c)"
    and "form s = Some f"
    and "validation_of (quantitySelector s) = Some v"
    and "\<not> canAdd v"
  shows "state_of (handleSubmit s) = reject_quantity v (clear_if_set (timeout s) s)"
  using assms
  by (auto simp add: handleSubmit_def Let_def clear_if_set_def clearTimeout_def split: option.splits)

lemma reject_quantity_timers:
  assumes "addToCartTextError s = Some e"
  shows "timers (reject_quantity v s) =
           timers (clear_if_set (timeout s) s) @
             [\<lparr> tid = timer_counter s + 1, due = now s + 10000, action = HideError \<rparr>,
              \<lparr> tid = timer_counter s + 2, due = now s + 1000, action = EnableButton \<rparr>]"
  using assms
  by (simp add: reject_quantity_def Let_def setTimeout_def setLiveRegionText_def
      clear_if_set_def clearTimeout_def ERROR_MESSAGE_DISPLAY_DURATION_def
      ERROR_BUTTON_REENABLE_DELAY_def split: option.splits)

lemma reject_quantity_button:
  "addToCartButtonContainer (reject_quantity v s) = map_option disable (addToCartButtonContainer s)"
  by (simp add: reject_quantity_def Let_def setTimeout_def setLiveRegionText_def
      clear_if_set_def clearTimeout_def split: option.splits prod.splits)

lemma reject_quantity_error_element:
  "addToCartTextError (reject_quantity v s) =
     map_option
       (\<lambda>e. set_error_text
              (string_replace ''{{ maximum }}'' (string_of_int (maxQuantity v))
                 (case quantityErrorMax s of None \<Rightarrow> [] | Some tmpl \<Rightarrow> tmpl))
              (e\<lparr> err_classList := classList_remove ''hidden'' (err_classList e) \<rparr>))
       (addToCartTextError s)"
  by (simp add: reject_quantity_def Let_def setTimeout_def setLiveRegionText_def
      clear_if_set_def clearTimeout_def split: option.splits prod.splits)




lemma reject_quantity_timers_absent:
  assumes "addToCartTextError s = None"
  shows "timers (reject_quantity v s) =
           timers s @ [\<lparr> tid = timer_counter s + 1, due = now s + 1000, action = EnableButton \<rparr>]"
  using assms
  by (simp add: reject_quantity_def Let_def setTimeout_def ERROR_BUTTON_REENABLE_DELAY_def)

text \<open>
  Claim C4, as the code has it. A submission that reaches the quantity validation and is
  rejected disables the button. On a page with the error element it adds exactly two
  timers to the pending ones (less the error-hide timer that the submission has cleared):
  one that is due after 10000 milliseconds and hides the error element and clears the live
  region, and one that is due after 1000 milliseconds and re-enables the button; when
  either of them fires, the other one is still pending. On a page without the error
  element it adds exactly one timer, the one that is due after 1000 milliseconds and
  re-enables the button.
\<close>

theorem rejected_submit_timers:
  assumes wf: "timers_wf s"
    and enabled: "\<not> (case addToCartButtonContainer s of None \<Rightarrow> False | Some c \<Rightarrow> disabled c)"
    and frm: "form s = Some f"
    and val: "validation_of (quantitySelector s) = Some v"
    and rej: "\<not> canAdd v"
  shows "let s' = state_of (handleSubmit s);
             old = timers (clear_if_set (timeout s) s);
             hide = \<lparr> tid = timer_counter s + 1, due = now s + 10000, action = HideError \<rparr>;
             reenable = \<lparr> tid = timer_counter s + 2, due = now s + 1000, action = EnableButton \<rparr>;
             only = \<lparr> tid = timer_counter s + 1, due = now s + 1000, action = EnableButton \<rparr>
         in (case addToCartButtonContainer s' of
               None \<Rightarrow> addToCartButtonContainer s = None
             | Some c \<Rightarrow> disabled c) \<and>
            (case addToCartTextError s of
               None \<Rightarrow>
                 timers s' = old @ [only] \<and>
                 timers (fire_timer (tid only) s') = old \<and>
                 (case addToCartButtonContainer (fire_timer (tid only) s') of
                    None \<Rightarrow> addToCartButtonContainer s = None
                  | Some c \<Rightarrow> \<not> disabled c)
             | Some e \<Rightarrow>
                 timers s' = old @ [hide, reenable] \<and>
                 timers (fire_timer (tid reenable) s') = old @ [hide] \<and>
                 (case addToCartButtonContainer (fire_timer (tid reenable) s') of
                    None \<Rightarrow> addToCartButtonContainer s = None
                  | Some c \<Rightarrow> \<not> disabled c) \<and>
                 timers (fire_timer (tid hide) s') = old @ [reenable] \<and>
                 (case addToCartTextError (fire_timer (tid hide) s') of
                    None \<Rightarrow> False
                  | Some e' \<Rightarrow> classList_contains ''hidden'' (err_classList e')) \<and>
                 liveRegion (fire_timer (tid hide) s') = [])"
proof -
  define s1 where "s1 = clear_if_set (timeout s) s"
  define s' where "s' = state_of (handleSubmit s)"
  define old where "old = timers s1"
  define hide where "hide = \<lparr> tid = timer_counter s + 1, due = now s + 10000, action = HideError \<rparr>"
  define reenable where "reenable = \<lparr> tid = timer_counter s + 2, due = now s + 1000, action = EnableButton \<rparr>"
  define only where "only = \<lparr> tid = timer_counter s + 1, due = now s + 1000, action = EnableButton \<rparr>"
  have s'_eq: "s' = reject_quantity v s1"
    unfolding s'_def s1_def using enabled frm val rej by (rule handleSubmit_rejected)
  have err1: "addToCartTextError s1 = addToCartTextError s"
    by (simp add: s1_def clear_if_set_def clearTimeout_def split: option.splits)
  have btn1: "addToCartButtonContainer s1 = addToCartButtonContainer s"
    by (simp add: s1_def clear_if_set_def clearTimeout_def split: option.splits)
  have btn: "addToCartButtonContainer s' = map_option disable (addToCartButtonContainer s)"
    by (simp add: s'_eq reject_quantity_button btn1)
  have c1: "case addToCartButtonContainer s' of
              None \<Rightarrow> addToCartButtonContainer s = None
            | Some c \<Rightarrow> disabled c"
    by (cases "addToCartButtonContainer s") (simp_all add: btn disable_def)
  have "timers_wf s1"
    unfolding s1_def using wf by (rule timers_wf_clear_if_set)
  then have fresh: "\<forall>t \<in> set old. tid t \<noteq> timer_counter s + 1 \<and> tid t \<noteq> timer_counter s + 2"
    by (auto simp add: timers_wf_def old_def s1_def)
  have absent: "timers s' = old @ [only] \<and>
      timers (fire_timer (tid only) s') = old \<and>
      (case addToCartButtonContainer (fire_timer (tid only) s') of
         None \<Rightarrow> addToCartButtonContainer s = None
       | Some c \<Rightarrow> \<not> disabled c)"
    if none: "addToCartTextError s = None"
  proof -
    have "addToCartTextError s1 = None"
      using none by (simp add: err1)
    then have tm: "timers s' = old @ [only]"
      using reject_quantity_timers_absent [of s1 v]
      by (simp add: s'_eq old_def only_def s1_def)
    have find_on: "find (\<lambda>t. tid t = tid only) (timers s') = Some only"
      using fresh by (simp add: tm find_append_fresh only_def)
    have filter_on: "filter (\<lambda>t. tid t \<noteq> tid only) (timers s') = old"
      using fresh by (simp add: tm filter_append_fresh only_def)
    have fire_on: "fire_timer (tid only) s' =
        run_callback (action only) (s'\<lparr> now := max (now s') (due only), timers := old \<rparr>)"
      using fire_timer_found [OF find_on] filter_on by simp
    have a2: "timers (fire_timer (tid only) s') = old"
      unfolding fire_on by (simp add: only_def)
    have a3: "case addToCartButtonContainer (fire_timer (tid only) s') of
                None \<Rightarrow> addToCartButtonContainer s = None
              | Some c \<Rightarrow> \<not> disabled c"
      unfolding fire_on
      by (cases "addToCartButtonContainer s") (simp_all add: only_def btn enable_def)
    show ?thesis using tm a2 a3 by simp
  qed
  have present: "timers s' = old @ [hide, reenable] \<and>
      timers (fire_timer (tid reenable) s') = old @ [hide] \<and>
      (case addToCartButtonContainer (fire_timer (tid reenable) s') of
         None \<Rightarrow> addToCartButtonContainer s = None
       | Some c \<Rightarrow> \<not> disabled c) \<and>
      timers (fire_timer (tid hide) s') = old @ [reenable] \<and>
      (case addToCartTextError (fire_timer (tid hide) s') of
         None \<Rightarrow> False
       | Some e' \<Rightarrow> classList_contains ''hidden'' (err_classList e')) \<and>
      liveRegion (fire_timer (tid hide) s') = []"
    if some: "addToCartTextError s = Some e" for e
  proof -
    have err1': "addToCartTextError s1 = Some e"
      using some by (simp add: err1)
    have "timeout s1 = timeout s"
      by (simp add: s1_def clear_if_set_def clearTimeout_def split: option.splits)
    then have "timers (clear_if_set (timeout s1) s1) = old"
      by (simp add: old_def s1_def clear_if_set_twice)
    then have tm: "timers s' = old @ [hide, reenable]"
      using reject_quantity_timers [OF err1', of v] by (simp add: s'_eq hide_def reenable_def s1_def)
    obtain e2 where err': "addToCartTextError s' = Some e2"
      by (simp add: s'_eq reject_quantity_error_element err1')
    have find_re: "find (\<lambda>t. tid t = tid reenable) (timers s') = Some reenable"
      using fresh by (simp add: tm find_append_fresh hide_def reenable_def)
    have filter_re: "filter (\<lambda>t. tid t \<noteq> tid reenable) (timers s') = old @ [hide]"
      using fresh by (simp add: tm filter_append_fresh hide_def reenable_def)
    have find_hi: "find (\<lambda>t. tid t = tid hide) (timers s') = Some hide"
      using fresh by (simp add: tm find_append_fresh hide_def reenable_def)
    have filter_hi: "filter (\<lambda>t. tid t \<noteq> tid hide) (timers s') = old @ [reenable]"
      using fresh by (simp add: tm filter_append_fresh hide_def reenable_def)
    have fire_re: "fire_timer (tid reenable) s' =
        run_callback (action reenable)
          (s'\<lparr> now := max (now s') (due reenable), timers := old @ [hide] \<rparr>)"
      using fire_timer_found [OF find_re] filter_re by simp
    have fire_hi: "fire_timer (tid hide) s' =
        run_callback (action hide)
          (s'\<lparr> now := max (now s') (due hide), timers := old @ [reenable] \<rparr>)"
      using fire_timer_found [OF find_hi] filter_hi by simp
    have c3: "timers (fire_timer (tid reenable) s') = old @ [hide]"
      unfolding fire_re by (simp add: reenable_def)
    have c4: "case addToCartButtonContainer (fire_timer (tid reenable) s') of
                None \<Rightarrow> addToCartButtonContainer s = None
              | Some c \<Rightarrow> \<not> disabled c"
      unfolding fire_re
      by (cases "addToCartButtonContainer s") (simp_all add: reenable_def btn enable_def)
    have c5: "timers (fire_timer (tid hide) s') = old @ [reenable]"
      unfolding fire_hi by (simp add: hide_def err' clearLiveRegionText_def)
    have c6: "case addToCartTextError (fire_timer (tid hide) s') of
                None \<Rightarrow> False
              | Some e' \<Rightarrow> classList_contains ''hidden'' (err_classList e')"
      unfolding fire_hi
      by (simp add: hide_def err' clearLiveRegionText_def classList_contains_def classList_add_def)
    have c7: "liveRegion (fire_timer (tid hide) s') = []"
      unfolding fire_hi by (simp add: hide_def err' clearLiveRegionText_def)
    show ?thesis using tm c3 c4 c5 c6 c7 by simp
  qed
  show ?thesis
  proof (cases "addToCartTextError s")
    case None
    then show ?thesis
      using c1 absent [OF None]
      unfolding Let_def s'_def old_def s1_def only_def by simp
  next
    case (Some e)
    then show ?thesis
      using c1 present [OF Some]
      unfolding Let_def s'_def old_def s1_def hide_def reenable_def by simp
  qed
qed

lemma example_page_wf: "timers_wf example_page"
  by (simp add: timers_wf_def example_page_def)

lemma example_page_no_error_wf: "timers_wf example_page_no_error"
  by (simp add: timers_wf_def example_page_no_error_def example_page_def)

theorem rejected_submit_timers_witness:
  "timers_wf example_page \<and>
   form example_page = Some example_form \<and>
   validation_of (quantitySelector example_page) = Some \<lparr> canAdd = False, maxQuantity = 3 \<rparr> \<and>
   map_option disabled (addToCartButtonContainer (state_of (handleSubmit example_page))) = Some True \<and>
   timers (state_of (handleSubmit example_page)) =
     [\<lparr> tid = 1, due = 10000, action = HideError \<rparr>, \<lparr> tid = 2, due = 1000, action = EnableButton \<rparr>] \<and>
   timers (fire_timer 2 (state_of (handleSubmit example_page))) =
     [\<lparr> tid = 1, due = 10000, action = HideError \<rparr>] \<and>
   timers (fire_timer 1 (state_of (handleSubmit example_page))) =
     [\<lparr> tid = 2, due = 1000, action = EnableButton \<rparr>] \<and>
   liveRegion (fire_timer 1 (state_of (handleSubmit example_page))) = [] \<and>
   timers_wf example_page_no_error \<and>
   addToCartTextError example_page_no_error = None \<and>
   timers (state_of (handleSubmit example_page_no_error)) =
     [\<lparr> tid = 1, due = 1000, action = EnableButton \<rparr>] \<and>
   timers (fire_timer 1 (state_of (handleSubmit example_page_no_error))) = [] \<and>
   map_option disabled
     (addToCartButtonContainer (fire_timer 1 (state_of (handleSubmit example_page_no_error)))) =
     Some False"
  using rejected_submit_timers
    [OF example_page_wf, of example_form "\<lparr> canAdd = False, maxQuantity = 3 \<rparr>"]
    rejected_submit_timers
    [OF example_page_no_error_wf, of example_form "\<lparr> canAdd = False, maxQuantity = 3 \<rparr>"]
  by (simp add: example_defs handler_defs timers_wf_def)

text \<open>
  Claim C4 as stated fails on the page without the optional error element: the rejected
  submission leaves one pending timer, the one that re-enables the button, and no timer
  that hides an error.
\<close>

theorem rejected_submit_one_timer:
  "validation_of (quantitySelector example_page_no_error) = Some \<lparr> canAdd = False, maxQuantity = 3 \<rparr> \<and>
   timers example_page_no_error = [] \<and>
   timers (state_of (handleSubmit example_page_no_error)) =
     [\<lparr> tid = 1, due = 1000, action = EnableButton \<rparr>]"
  by (simp add: example_page_no_error_def example_page_def example_button_def
      example_selector_def example_form_def validation_of_def handleSubmit_def
      reject_quantity_def clear_if_set_def setTimeout_def disable_def Let_def
      ERROR_BUTTON_REENABLE_DELAY_def)

section \<open>Properties of a successful answer\<close>

lemma response_success_error_element:
  "addToCartTextError (state_of (response_success fd r s)) =
     map_option
       (\<lambda>e. e\<lparr> err_classList := classList_add ''hidden'' (err_classList e), err_aria_live := None \<rparr>)
       (addToCartTextError s)"
  by (simp add: response_success_def Let_def dispatchEvent_def fetchCartQuantity_send_def fetch_def
      setTimeout_def setLiveRegionText_def split: option.splits)

text \<open>
  Claim C5. When the parsed answer has no truthy \<^verbatim>\<open>status\<close>, the page has the error
  element after the promise chain exactly when it had one before, and then the element
  carries the class \<^verbatim>\<open>hidden\<close>; this holds also when the callback throws for want of
  a form id, since the class is added first.
\<close>

theorem success_leaves_error_hidden:
  assumes "\<not> truthy_status r"
  shows "(addToCartTextError (handleSubmit_response fd f (Json r) s) = None) =
           (addToCartTextError s = None) \<and>
         (case addToCartTextError (handleSubmit_response fd f (Json r) s) of
            None \<Rightarrow> True
          | Some e \<Rightarrow> classList_contains ''hidden'' (err_classList e))"
proof -
  have "addToCartTextError (handleSubmit_response fd f (Json r) s) =
        addToCartTextError (state_of (response_success fd r s))"
    using assms
    by (cases "response_success fd r s")
      (simp_all add: handleSubmit_response_def handleSubmit_then_def console_error_def)
  then show ?thesis
    by (cases "addToCartTextError s")
      (simp_all add: response_success_error_element classList_contains_add)
qed

theorem success_leaves_error_hidden_witness:
  "\<not> truthy_status added_ok \<and>
   map_option err_classList (addToCartTextError example_page_error_shown) = Some [] \<and>
   map_option err_classList
     (addToCartTextError
        (handleSubmit_response (build_formData example_form example_page_error_shown) example_form
           (Json added_ok) example_page_error_shown)) = Some [''hidden'']"
  using success_leaves_error_hidden
    [of added_ok "build_formData example_form example_page_error_shown" example_form
      example_page_error_shown]
  by (simp add: truthy_status_def added_ok_def example_page_error_shown_def
      example_page_accepting_def example_page_def example_form_def build_formData_def
      handleSubmit_response_def handleSubmit_then_def response_success_def formData_get_def
      classList_add_def Let_def setTimeout_def setLiveRegionText_def fetchCartQuantity_send_def
      fetch_def dispatchEvent_def example_button_def variantIdInput_def truthy_str_def)

section \<open>Properties of a variant change\<close>











section \<open>Properties of the click on the button\<close>

lemma animateFlyToCart_other:
  "timers (animateFlyToCart s) = timers s"
  "now (animateFlyToCart s) = now s"
  "timer_counter (animateFlyToCart s) = timer_counter s"
  "addToCartButtonContainer (animateFlyToCart s) = addToCartButtonContainer s"
  by (simp_all add: animateFlyToCart_def split: option.splits)

lemma animateAddToCart_state:
  assumes "addToCartButtonContainer s = Some c"
  shows "timers (animateAddToCart s) =
           timers (clear_if_set (cleanupTimeout c) (clear_if_set (animationTimeout c) s)) @
             [\<lparr> tid = timer_counter s + 1, due = now s + 2000, action = AnimationEnd \<rparr>]"
    and "now (animateAddToCart s) = now s"
    and "timer_counter (animateAddToCart s) = timer_counter s + 1"
    and "\<exists>c'. addToCartButtonContainer (animateAddToCart s) = Some c' \<and>
              classList_contains ''atc-added'' (atc_classList c')"
    and "fly_to_cart_elements (animateAddToCart s) = fly_to_cart_elements s"
  using assms
  by (simp_all add: animateAddToCart_def Let_def setTimeout_def classList_contains_def
      classList_add_def ADD_TO_CART_TEXT_ANIMATION_DURATION_def clear_if_set_def clearTimeout_def
      split: option.splits)

lemma handleClick_valid:
  assumes "addToCartButtonContainer s = Some c" and "click_valid c"
  shows "handleClick ev s =
           (if addToCartAnimation c = Some ''true'' \<and> \<not> target_in_quick_add_modal ev
            then animateFlyToCart (animateAddToCart s) else animateAddToCart s)"
  using assms
  by (auto simp add: handleClick_def click_valid_def Let_def split: option.splits)

lemma handleClick_valid_fields:
  assumes "addToCartButtonContainer s = Some c" and "click_valid c"
  shows "timers (handleClick ev s) = timers (animateAddToCart s)"
    and "now (handleClick ev s) = now (animateAddToCart s)"
    and "timer_counter (handleClick ev s) = timer_counter (animateAddToCart s)"
    and "addToCartButtonContainer (handleClick ev s) = addToCartButtonContainer (animateAddToCart s)"
  by (simp_all add: handleClick_valid [OF assms] animateFlyToCart_other)

lemma handleClick_invalid:
  assumes "addToCartButtonContainer s = Some c" and "\<not> click_valid c"
  shows "handleClick ev s = s"
  using assms
  by (auto simp add: handleClick_def click_valid_def Let_def split: option.splits)

lemma handleClick_fly:
  assumes "addToCartButtonContainer s = Some c"
    and "fly_to_cart_elements (handleClick ev s) \<noteq> fly_to_cart_elements s"
  shows "addToCartAnimation c = Some ''true'' \<and> \<not> target_in_quick_add_modal ev"
proof (cases "click_valid c")
  case True
  show ?thesis
  proof (rule ccontr)
    assume "\<not> ?thesis"
    then have "handleClick ev s = animateAddToCart s"
      using handleClick_valid [OF assms(1) True, of ev] by auto
    then show False
      using assms(2) animateAddToCart_state(5) [OF assms(1)] by simp
  qed
next
  case False
  then show ?thesis
    using assms handleClick_invalid [OF assms(1) False, of ev] by simp
qed

text \<open>
  Claim C7, as the code has it. On a page whose pending timers are well formed, a valid
  click applies the class \<^verbatim>\<open>atc-added\<close> and sets one timer, due 2000 milliseconds
  later. When that timer fires the class is still applied, and a second timer is set that
  is due 10 milliseconds after the first, 2010 milliseconds after the click; the class is
  removed when the second timer fires. An invalid click changes nothing. A fly-to-cart
  element is appended only when the animation flag is \<^verbatim>\<open>true\<close> and the target is not
  inside a quick-add modal.
\<close>

theorem click_animation:
  assumes btn: "addToCartButtonContainer s = Some c"
    and wf: "timers_wf s"
  shows "let s' = handleClick ev s;
             old = timers (clear_if_set (cleanupTimeout c) (clear_if_set (animationTimeout c) s));
             i = timer_counter s + 1
         in (click_valid c \<longrightarrow>
               atc_added s' \<and>
               timers s' = old @ [\<lparr> tid = i, due = now s + 2000, action = AnimationEnd \<rparr>] \<and>
               atc_added (fire_timer i s') \<and>
               timers (fire_timer i s') =
                 old @ [\<lparr> tid = i + 1, due = now s + 2010, action = AnimationCleanup \<rparr>] \<and>
               \<not> atc_added (fire_timer (i + 1) (fire_timer i s'))) \<and>
            (\<not> click_valid c \<longrightarrow> s' = s) \<and>
            (fly_to_cart_elements s' \<noteq> fly_to_cart_elements s \<longrightarrow>
               addToCartAnimation c = Some ''true'' \<and> \<not> target_in_quick_add_modal ev)"
proof -
  define s' where "s' = handleClick ev s"
  define old where "old = timers (clear_if_set (cleanupTimeout c) (clear_if_set (animationTimeout c) s))"
  define i where "i = timer_counter s + 1"
  define t1 where "t1 = \<lparr> tid = i, due = now s + 2000, action = AnimationEnd \<rparr>"
  define t2 where "t2 = \<lparr> tid = i + 1, due = now s + 2010, action = AnimationCleanup \<rparr>"
  have "timers_wf (clear_if_set (cleanupTimeout c) (clear_if_set (animationTimeout c) s))"
    using wf by (intro timers_wf_clear_if_set)
  then have fresh: "\<forall>t \<in> set old. tid t \<noteq> i \<and> tid t \<noteq> i + 1"
    by (auto simp add: timers_wf_def old_def i_def)
  have valid: "atc_added s' \<and> timers s' = old @ [t1] \<and> atc_added (fire_timer i s') \<and>
      timers (fire_timer i s') = old @ [t2] \<and> \<not> atc_added (fire_timer (i + 1) (fire_timer i s'))"
    if v: "click_valid c"
  proof -
    note flds = handleClick_valid_fields [OF btn v, of ev]
    have tm: "timers s' = old @ [t1]"
      using animateAddToCart_state(1) [OF btn]
      by (simp add: s'_def old_def t1_def i_def flds)
    have nw: "now s' = now s"
      using animateAddToCart_state(2) [OF btn] by (simp add: s'_def flds)
    have ctr: "timer_counter s' = i"
      using animateAddToCart_state(3) [OF btn] by (simp add: s'_def i_def flds)
    obtain c' where c': "addToCartButtonContainer s' = Some c'"
      and added: "classList_contains ''atc-added'' (atc_classList c')"
      using animateAddToCart_state(4) [OF btn] by (auto simp add: s'_def flds)
    have a1: "atc_added s'"
      by (simp add: atc_added_def c' added)
    have find1: "find (\<lambda>t. tid t = i) (timers s') = Some t1"
      using fresh by (simp add: tm find_append_fresh t1_def)
    have filter1: "filter (\<lambda>t. tid t \<noteq> i) (timers s') = old"
      using fresh by (simp add: tm filter_append_fresh t1_def)
    define s2 where "s2 = fire_timer i s'"
    have s2_eq: "s2 = run_callback (action t1) (s'\<lparr> now := max (now s') (due t1), timers := old \<rparr>)"
      unfolding s2_def using fire_timer_found [OF find1] filter1 by simp
    have tm2: "timers s2 = old @ [t2]"
      unfolding s2_eq by (simp add: t1_def t2_def c' setTimeout_def Let_def ctr nw)
    have c2: "addToCartButtonContainer s2 = Some (c'\<lparr> cleanupTimeout := Some (i + 1) \<rparr>)"
      unfolding s2_eq by (simp add: t1_def c' setTimeout_def Let_def ctr)
    have a2: "atc_added s2"
      by (simp add: atc_added_def c2 added)
    have find2: "find (\<lambda>t. tid t = i + 1) (timers s2) = Some t2"
      using fresh by (simp add: tm2 find_append_fresh t2_def)
    have s3_eq: "fire_timer (i + 1) s2 =
        run_callback (action t2)
          (s2\<lparr> now := max (now s2) (due t2), timers := filter (\<lambda>u. tid u \<noteq> i + 1) (timers s2) \<rparr>)"
      using fire_timer_found [OF find2] by simp
    have a3: "\<not> atc_added (fire_timer (i + 1) s2)"
      unfolding s3_eq by (simp add: t2_def c2 atc_added_def not_contains_remove)
    show ?thesis
      using a1 tm a2 tm2 a3 by (simp add: s2_def)
  qed
  have invalid: "s' = s" if "\<not> click_valid c"
    unfolding s'_def using btn that by (rule handleClick_invalid)
  have fly: "addToCartAnimation c = Some ''true'' \<and> \<not> target_in_quick_add_modal ev"
    if "fly_to_cart_elements s' \<noteq> fly_to_cart_elements s"
    using btn that unfolding s'_def by (rule handleClick_fly)
  show ?thesis
    using valid invalid fly
    unfolding Let_def s'_def old_def i_def t1_def t2_def by blast
qed

theorem click_animation_witness:
  "addToCartButtonContainer example_page = Some example_button \<and>
   timers_wf example_page \<and>
   click_valid example_button \<and>
   atc_added (handleClick example_click example_page) \<and>
   timers (handleClick example_click example_page) =
     [\<lparr> tid = 1, due = 2000, action = AnimationEnd \<rparr>] \<and>
   timers (fire_timer 1 (handleClick example_click example_page)) =
     [\<lparr> tid = 2, due = 2010, action = AnimationCleanup \<rparr>] \<and>
   \<not> atc_added (fire_timer 2 (fire_timer 1 (handleClick example_click example_page))) \<and>
   fly_to_cart_elements (handleClick example_click example_page) = [''img.png'']"
  using click_animation [of example_page example_button example_click]
  by (simp add: example_defs handler_defs timers_wf_def)

text \<open>
  Claim C7 as stated fails: 2000 milliseconds after a valid click, when the first timer
  has fired, the class \<^verbatim>\<open>atc-added\<close> is still applied, and the timer that removes it
  is due at 2010 milliseconds.
\<close>

theorem click_class_applied_at_2000:
  "click_valid example_button \<and>
   now (handleClick example_click example_page) = 0 \<and>
   timers (handleClick example_click example_page) =
     [\<lparr> tid = 1, due = 2000, action = AnimationEnd \<rparr>] \<and>
   now (fire_timer 1 (handleClick example_click example_page)) = 2000 \<and>
   atc_added (fire_timer 1 (handleClick example_click example_page)) \<and>
   timers (fire_timer 1 (handleClick example_click example_page)) =
     [\<lparr> tid = 2, due = 2010, action = AnimationCleanup \<rparr>]"
  by (simp add: example_defs handler_defs)

section \<open>Properties of error answers and the error-hide timer\<close>

text \<open>What the error branch does on a page that has the error element.\<close>

lemma error_answer_with_error_element:
  assumes "addToCartTextError s = Some e" and "truthy_status r"
  shows "events (handleSubmit_response fd f (Json r) s) =
           events s @
             [CartErrorEvent
                \<lparr> ce_sourceId = (case form_id f of None \<Rightarrow> [] | Some i \<Rightarrow> i),
                  ce_message = message r, ce_description = description r, ce_errors = errors r \<rparr>,
              CartAddEvent
                \<lparr> ca_sourceId = component_id s, didError = True,
                  source = ''product-form-component'', itemCount = item_count fd s,
                  ca_productId = productId s, ca_sections = None \<rparr>]"
    and "requests (handleSubmit_response fd f (Json r) s) = requests s"
    and "timers (handleSubmit_response fd f (Json r) s) =
           timers s @ [\<lparr> tid = timer_counter s + 1, due = now s + 10000, action = HideError \<rparr>]"
  using assms
  by (simp_all add: handleSubmit_response_def handleSubmit_then_def response_error_def
      dispatchEvent_def setTimeout_def setLiveRegionText_def item_count_def Let_def
      ERROR_MESSAGE_DISPLAY_DURATION_def)

text \<open>
  Claim C2 fails on the code. On the page without the optional error element, an answer
  with \<^verbatim>\<open>status: 422\<close> has the error event dispatched and then returns at
  \<^verbatim>\<open>if (!addToCartTextError) return;\<close>: no add event tagged \<^verbatim>\<open>didError\<close> is
  dispatched, although the comment above that dispatch says that it is needed whenever
  the server has answered a request with an error.
\<close>

theorem error_answer_without_error_element:
  "truthy_status sold_out \<and>
   addToCartTextError example_error_no_element = None \<and>
   events example_error_no_element =
     [CartErrorEvent
        \<lparr> ce_sourceId = ''f1'', ce_message = ''Sold out'', ce_description = ''Sold out'',
          ce_errors = [] \<rparr>]"
  by (simp add: example_error_no_element_def example_defs handler_defs)

text \<open>
  A submission clears the timer whose handle the component has recorded: no pending
  timer has that handle afterwards.
\<close>

lemma handleSubmit_clears_recorded_timer:
  assumes "timers_wf s" and "timeout s = Some i" and "0 < i" and "i \<le> timer_counter s"
  shows "\<forall>t \<in> set (timers (state_of (handleSubmit s))). tid t \<noteq> i"
  using assms
  by (auto simp add: handleSubmit_def reject_quantity_def send_cart_add_def fetch_def
      clear_if_set_def clearTimeout_def setTimeout_def setLiveRegionText_def Let_def timers_wf_def
      split: option.splits if_splits)

text \<open>
  Claim C3 fails on the code. The widget accepts two submissions in a row, so neither
  sets a timer and each has nothing to clear; both are answered with an error. The
  callback of the second answer sets its error-hide timer without clearing the one of
  the first (line 327 has no \<^verbatim>\<open>clearTimeout\<close>, unlike line 269), so two error-hide
  timers are pending. The older one fires 5200 milliseconds after the second error was
  shown and hides it.
\<close>

theorem double_submit_two_hide_timers:
  "timers example_double_submit =
     [\<lparr> tid = 1, due = 10200, action = HideError \<rparr>, \<lparr> tid = 2, due = 15000, action = HideError \<rparr>] \<and>
   timeout example_double_submit = Some 2 \<and>
   now example_double_submit = 5000 \<and>
   liveRegion example_double_submit = ''Sold out'' \<and>
   map_option err_classList (addToCartTextError example_double_submit) = Some [] \<and>
   now (fire_timer 1 example_double_submit) = 10200 \<and>
   map_option err_classList (addToCartTextError (fire_timer 1 example_double_submit)) =
     Some [''hidden''] \<and>
   liveRegion (fire_timer 1 example_double_submit) = []"
  by (simp add: example_double_submit_def example_defs handler_defs)

section \<open>The handlers keep the timers well formed\<close>

lemma timers_wf_handleSubmit: "timers_wf s \<Longrightarrow> timers_wf (state_of (handleSubmit s))"
  by (auto simp add: handleSubmit_def reject_quantity_def send_cart_add_def fetch_def
      clear_if_set_def clearTimeout_def setTimeout_def setLiveRegionText_def Let_def timers_wf_def
      split: option.splits if_splits)

lemma timers_wf_handleSubmit_response:
  "timers_wf s \<Longrightarrow> timers_wf (handleSubmit_response fd f rp s)"
  by (auto simp add: handleSubmit_response_def handleSubmit_then_def response_error_def
      response_success_def fetchCartQuantity_send_def fetch_def console_error_def dispatchEvent_def
      setTimeout_def setLiveRegionText_def Let_def timers_wf_def
      split: option.splits if_splits reply.splits)

lemma timers_wf_animateAddToCart:
  assumes "timers_wf s"
  shows "timers_wf (animateAddToCart s)"
proof (cases "addToCartButtonContainer s")
  case None
  then show ?thesis using assms by (simp add: animateAddToCart_def)
next
  case (Some c)
  have "timers_wf (clear_if_set (cleanupTimeout c) (clear_if_set (animationTimeout c) s))"
    using assms by (intro timers_wf_clear_if_set)
  then show ?thesis
    unfolding timers_wf_def animateAddToCart_state(1) [OF Some] animateAddToCart_state(3) [OF Some]
    by auto
qed

lemma timers_wf_handleClick:
  assumes "timers_wf s"
  shows "timers_wf (handleClick ev s)"
proof (cases "addToCartButtonContainer s")
  case None
  then show ?thesis using assms by (simp add: handleClick_def)
next
  case (Some c)
  show ?thesis
  proof (cases "click_valid c")
    case True
    show ?thesis
      using timers_wf_animateAddToCart [OF assms]
      unfolding timers_wf_def handleClick_valid_fields(1) [OF Some True]
        handleClick_valid_fields(3) [OF Some True] .
  next
    case False
    then show ?thesis using assms handleClick_invalid [OF Some False] by simp
  qed
qed

lemma timers_wf_run_callback: "timers_wf s \<Longrightarrow> timers_wf (run_callback a s)"
  by (cases a)
    (auto simp add: clearLiveRegionText_def setTimeout_def Let_def timers_wf_def
      split: option.splits)

lemma timers_wf_fire_timer:
  assumes "timers_wf s"
  shows "timers_wf (fire_timer i s)"
proof (cases "find (\<lambda>t. tid t = i) (timers s)")
  case None
  then show ?thesis using assms by (simp add: fire_timer_def)
next
  case (Some t)
  have "timers_wf (s\<lparr> now := max (now s) (due t), timers := filter (\<lambda>u. tid u \<noteq> i) (timers s) \<rparr>)"
    using assms by (auto simp add: timers_wf_def)
  then show ?thesis
    unfolding fire_timer_found [OF Some] by (rule timers_wf_run_callback)
qed

lemma timers_wf_elapse: "timers_wf s \<Longrightarrow> timers_wf (elapse d s)"
  by (simp add: timers_wf_def elapse_def)

end
